theory Spec2Isabelle
  imports Main
begin

section \<open>Data model\<close>

text \<open>
  The pydantic model \<open>TranslationResponse\<close> of \<open>main.py\<close> (lines 20 to 24): four
  fields, each declared \<open>str\<close>. Pydantic refuses \<open>None\<close> for a \<open>str\<close> field when an
  instance is built, so a field of an instance is always a string; the record type says
  the same. A Python \<open>str\<close> is modelled as a HOL \<open>string\<close>.
\<close>

record TranslationResponse =
  source_language :: string
  target_language :: string
  translated_text :: string
  original_text :: string

text \<open>
  What the handler \<open>except Exception as e\<close> (line 56) receives: an instance of
  \<open>Exception\<close>, of which the code reads \<open>str(e)\<close> only. The constructor carries that
  string. Signals that derive from \<open>BaseException\<close> alone (a keyboard interrupt, an
  interpreter exit) are not raised by the remote call and are not modelled.
\<close>

datatype py_exception = Exception (str_of: string)

text \<open>
  The awaited call \<open>Runner.run(translation_agent, query)\<close> followed by
  \<open>result.final_output\<close> (lines 54 and 55): the agent, its instructions, the model and
  the client are constants of the module, so the call is a function of the query. It
  either raises or yields a \<open>TranslationResponse\<close>, the agent's declared
  \<open>output_type\<close>. The remote service is outside the repository, so it is a parameter
  of the model.
\<close>

type_synonym runner = "string \<Rightarrow> py_exception + TranslationResponse"

text \<open>
  One entry of \<open>st.session_state.chat_history\<close>: the dict
  \<open>{"role": ..., "content": ...}\<close> (lines 286 and 296).
\<close>

record message =
  role :: string
  content :: string

text \<open>
  Everything the modelled code writes to:
  \<^item> \<open>runner_calls\<close>: the queries handed to \<open>Runner.run\<close>, oldest first;
  \<^item> \<open>st_errors\<close>: the notices shown through \<open>st.error\<close>, oldest first;
  \<^item> \<open>chat_history\<close> and \<open>reset_input\<close>: the two entries of
    \<open>st.session_state\<close> that the submit handler updates.
\<close>

record world =
  runner_calls :: "string list"
  st_errors :: "string list"
  chat_history :: "message list"
  reset_input :: bool

section \<open>Operations\<close>

text \<open>
  \<open>get_translation\<close> (lines 51 to 63). The f-string of line 53 is a concatenation,
  since all three arguments are strings. The \<open>try\<close> block is the case distinction on
  the outcome of the remote call; the handler reports through \<open>st.error\<close> and builds
  the fallback record from the arguments.
\<close>

definition get_translation ::
  "runner \<Rightarrow> string \<Rightarrow> string \<Rightarrow> string \<Rightarrow> world \<Rightarrow> TranslationResponse \<times> world" where
  "get_translation run text source_lang target_lang w =
     (let query = ''Translate from '' @ source_lang @ '' to '' @ target_lang @ '': '' @ text;
          w1 = w\<lparr>runner_calls := runner_calls w @ [query]\<rparr>
      in case run query of
           Inr final_output \<Rightarrow> (final_output, w1)
         | Inl e \<Rightarrow>
             (\<lparr>source_language = source_lang,
               target_language = target_lang,
               translated_text =
                 ''Sorry, an error occurred during translation. Please try again.'',
               original_text = text\<rparr>,
              w1\<lparr>st_errors := st_errors w1 @ [''Error during translation: '' @ str_of e]\<rparr>))"

text \<open>
  The list offered by both language selectors (lines 222 to 226).
\<close>

definition languages :: "string list" where
  "languages =
     [''English'', ''Spanish'', ''French'', ''German'', ''Chinese'', ''Japanese'',
      ''Russian'', ''Arabic'', ''Hindi'', ''Urdu'', ''Portuguese'', ''Italian'',
      ''Dutch'', ''Korean'', ''Turkish'', ''Swedish'', ''Polish'']"

text \<open>
  The f-string of line 293.
\<close>

definition formatted_response :: "TranslationResponse \<Rightarrow> string" where
  "formatted_response response =
     ''As Abdul Qadeer Trained Me The Translation Of This Line Will Be: ''
       @ translated_text response"

text \<open>
  The submit handler (lines 284 to 299), up to the rerun of the script. The condition
  \<open>submit_button and user_input\<close> holds when the button was pressed and the text is
  not empty. The handler appends the user's entry, translates, appends the assistant's
  entry and sets \<open>reset_input\<close>; otherwise nothing changes.
\<close>

definition process_translation ::
  "runner \<Rightarrow> bool \<Rightarrow> string \<Rightarrow> string \<Rightarrow> string \<Rightarrow> world \<Rightarrow> world" where
  "process_translation run submit_button user_input source_lang target_lang w =
     (if submit_button \<and> user_input \<noteq> [] then
        (let w1 = w\<lparr>chat_history :=
                      chat_history w @ [\<lparr>role = ''user'', content = user_input\<rparr>]\<rparr>;
             (response, w2) = get_translation run user_input source_lang target_lang w1;
             w3 = w2\<lparr>chat_history :=
                       chat_history w2
                         @ [\<lparr>role = ''assistant'', content = formatted_response response\<rparr>]\<rparr>
         in w3\<lparr>reset_input := True\<rparr>)
      else w)"

text \<open>
  Two runners for concrete runs: one that always answers with a given record, one that
  always raises with a given message; and the state of a fresh session.
\<close>

definition answering :: "TranslationResponse \<Rightarrow> runner" where
  "answering r query = Inr r"

definition failing :: "string \<Rightarrow> runner" where
  "failing msg query = Inl (Exception msg)"

definition fresh :: world where
  "fresh = \<lparr>runner_calls = [], st_errors = [], chat_history = [], reset_input = False\<rparr>"

section \<open>Basic facts about \<open>get_translation\<close>\<close>

lemma get_translation_Inr:
  assumes "run (''Translate from '' @ source_lang @ '' to '' @ target_lang @ '': '' @ text) = Inr r"
  shows "get_translation run text source_lang target_lang w =
           (r, w\<lparr>runner_calls := runner_calls w
                    @ [''Translate from '' @ source_lang @ '' to '' @ target_lang @ '': '' @ text]\<rparr>)"
  using assms by (simp add: get_translation_def Let_def)

lemma get_translation_Inl:
  assumes "run (''Translate from '' @ source_lang @ '' to '' @ target_lang @ '': '' @ text) = Inl e"
  shows "get_translation run text source_lang target_lang w =
           (\<lparr>source_language = source_lang,
             target_language = target_lang,
             translated_text =
               ''Sorry, an error occurred during translation. Please try again.'',
             original_text = text\<rparr>,
            w\<lparr>runner_calls := runner_calls w
                    @ [''Translate from '' @ source_lang @ '' to '' @ target_lang @ '': '' @ text],
              st_errors := st_errors w @ [''Error during translation: '' @ str_of e]\<rparr>)"
  using assms by (simp add: get_translation_def Let_def)

lemma get_translation_calls:
  "runner_calls (snd (get_translation run text source_lang target_lang w)) =
     runner_calls w @ [''Translate from '' @ source_lang @ '' to '' @ target_lang @ '': '' @ text]"
  by (cases "run (''Translate from '' @ source_lang @ '' to '' @ target_lang @ '': '' @ text)")
     (simp_all add: get_translation_Inl get_translation_Inr)

lemma get_translation_result_state_free:
  "fst (get_translation run text source_lang target_lang w) =
   fst (get_translation run text source_lang target_lang w')"
  by (cases "run (''Translate from '' @ source_lang @ '' to '' @ target_lang @ '': '' @ text)")
     (simp_all add: get_translation_Inl get_translation_Inr)

lemma process_translation_history:
  assumes "user_input \<noteq> []"
  shows "chat_history (process_translation run True user_input source_lang target_lang w) =
           chat_history w
             @ [\<lparr>role = ''user'', content = user_input\<rparr>,
                \<lparr>role = ''assistant'',
                 content = formatted_response
                   (fst (get_translation run user_input source_lang target_lang w))\<rparr>]"
proof (cases "run (''Translate from '' @ source_lang @ '' to '' @ target_lang @ '': '' @ user_input)")
  case (Inl e)
  with assms show ?thesis
    by (simp add: process_translation_def get_translation_Inl Let_def)
next
  case (Inr r)
  with assms show ?thesis
    by (simp add: process_translation_def get_translation_Inr Let_def)
qed

section \<open>The claims\<close>

text \<open>
  Claim C1. Whenever the remote call raises an exception, \<open>get_translation\<close> returns
  (the error is not passed on) the record whose \<open>source_language\<close> is the requested
  source language, whose \<open>target_language\<close> is the requested target language, whose
  \<open>original_text\<close> is the input text and whose \<open>translated_text\<close> is the fixed apology.
\<close>

theorem get_translation_fallback:
  assumes "run (''Translate from '' @ source_lang @ '' to '' @ target_lang @ '': '' @ text) = Inl e"
  shows "source_language (fst (get_translation run text source_lang target_lang w)) = source_lang
       \<and> target_language (fst (get_translation run text source_lang target_lang w)) = target_lang
       \<and> original_text (fst (get_translation run text source_lang target_lang w)) = text
       \<and> translated_text (fst (get_translation run text source_lang target_lang w)) =
           ''Sorry, an error occurred during translation. Please try again.''"
  using assms by (simp add: get_translation_Inl)

theorem get_translation_fallback_witness:
  "failing ''connection timed out'' ''Translate from English to Spanish: dog''
     = Inl (Exception ''connection timed out'')
   \<and> source_language
       (fst (get_translation (failing ''connection timed out'') ''dog'' ''English'' ''Spanish'' fresh))
     = ''English''
   \<and> target_language
       (fst (get_translation (failing ''connection timed out'') ''dog'' ''English'' ''Spanish'' fresh))
     = ''Spanish''
   \<and> original_text
       (fst (get_translation (failing ''connection timed out'') ''dog'' ''English'' ''Spanish'' fresh))
     = ''dog''
   \<and> translated_text
       (fst (get_translation (failing ''connection timed out'') ''dog'' ''English'' ''Spanish'' fresh))
     = ''Sorry, an error occurred during translation. Please try again.''"
proof -
  have raised: "failing ''connection timed out''
      (''Translate from '' @ ''English'' @ '' to '' @ ''Spanish'' @ '': '' @ ''dog'')
      = Inl (Exception ''connection timed out'')"
    by (simp add: failing_def)
  from raised
    get_translation_fallback [of "failing ''connection timed out''"
      "''English''" "''Spanish''" "''dog''" "Exception ''connection timed out''" fresh]
  show ?thesis
    by simp
qed

text \<open>
  Claim C2, as stated: the returned \<open>original_text\<close> equals the input text on the
  success path too. It does not: on success the record of the remote service is
  returned as it is, and its \<open>original_text\<close> is whatever the service wrote. Here the
  input ends with a space and the service answers with the trimmed text.
\<close>

theorem original_text_differs_on_success:
  "original_text
     (fst (get_translation
        (answering \<lparr>source_language = ''English'', target_language = ''Spanish'',
                    translated_text = ''perro'', original_text = ''dog''\<rparr>)
        ''dog '' ''English'' ''Spanish'' fresh))
   \<noteq> ''dog ''"
  by (simp add: get_translation_def answering_def Let_def)

text \<open>
  Claim C2, amended. The returned \<open>original_text\<close> is the input text on the failure
  path, and the \<open>original_text\<close> field of the remote response on the success path; so
  it is the input text exactly when the call fails or the service echoes the input.
\<close>

theorem original_text_of_result:
  "original_text (fst (get_translation run text source_lang target_lang w)) =
     (case run (''Translate from '' @ source_lang @ '' to '' @ target_lang @ '': '' @ text) of
        Inl e \<Rightarrow> text
      | Inr r \<Rightarrow> original_text r)"
  by (cases "run (''Translate from '' @ source_lang @ '' to '' @ target_lang @ '': '' @ text)")
     (simp_all add: get_translation_Inl get_translation_Inr)

text \<open>
  Claim C3. The one string handed to the remote call is
  \<open>"Translate from {source_lang} to {target_lang}: {text}"\<close>; for the input
  \<open>("Hello", "English", "French")\<close> it is \<open>"Translate from English to French: Hello"\<close>.
\<close>

theorem query_is_exact:
  "runner_calls (snd (get_translation run text source_lang target_lang w)) =
     runner_calls w @ [''Translate from '' @ source_lang @ '' to '' @ target_lang @ '': '' @ text]
   \<and> runner_calls (snd (get_translation run ''Hello'' ''English'' ''French'' fresh)) =
     [''Translate from English to French: Hello'']"
  by (simp add: get_translation_calls fresh_def)

text \<open>
  Claim C4. When the remote call succeeds, \<open>get_translation\<close> returns the record of
  the remote service as it is: all four fields are those of the response, and no
  notice is shown.
\<close>

theorem get_translation_pass_through:
  assumes "run (''Translate from '' @ source_lang @ '' to '' @ target_lang @ '': '' @ text) = Inr r"
  shows "fst (get_translation run text source_lang target_lang w) = r
       \<and> st_errors (snd (get_translation run text source_lang target_lang w)) = st_errors w"
  using assms by (simp add: get_translation_Inr)

theorem get_translation_pass_through_witness:
  "answering \<lparr>source_language = ''en'', target_language = ''es'',
              translated_text = [], original_text = ''DOG''\<rparr>
     ''Translate from English to Spanish: dog''
     = Inr \<lparr>source_language = ''en'', target_language = ''es'',
            translated_text = [], original_text = ''DOG''\<rparr>
   \<and> fst (get_translation
        (answering \<lparr>source_language = ''en'', target_language = ''es'',
                    translated_text = [], original_text = ''DOG''\<rparr>)
        ''dog'' ''English'' ''Spanish'' fresh)
     = \<lparr>source_language = ''en'', target_language = ''es'',
        translated_text = [], original_text = ''DOG''\<rparr>
   \<and> st_errors (snd (get_translation
        (answering \<lparr>source_language = ''en'', target_language = ''es'',
                    translated_text = [], original_text = ''DOG''\<rparr>)
        ''dog'' ''English'' ''Spanish'' fresh))
     = []"
proof -
  have answered: "answering \<lparr>source_language = ''en'', target_language = ''es'',
              translated_text = [], original_text = ''DOG''\<rparr>
      (''Translate from '' @ ''English'' @ '' to '' @ ''Spanish'' @ '': '' @ ''dog'')
      = Inr \<lparr>source_language = ''en'', target_language = ''es'',
            translated_text = [], original_text = ''DOG''\<rparr>"
    by (simp add: answering_def)
  from answered
    get_translation_pass_through [of
      "answering \<lparr>source_language = ''en'', target_language = ''es'',
                  translated_text = [], original_text = ''DOG''\<rparr>"
      "''English''" "''Spanish''" "''dog''"
      "\<lparr>source_language = ''en'', target_language = ''es'',
        translated_text = [], original_text = ''DOG''\<rparr>"
      fresh]
  show ?thesis
    by (simp add: fresh_def)
qed



text \<open>
  Claim C6. With the remote service a function of the query, the result of
  \<open>get_translation\<close> depends on its three arguments only: it is the same from any two
  states, and a second call made in the state the first call left returns what the first
  returned.
\<close>

theorem get_translation_repeatable:
  "fst (get_translation run text source_lang target_lang w) =
     fst (get_translation run text source_lang target_lang w')
   \<and> fst (get_translation run text source_lang target_lang
            (snd (get_translation run text source_lang target_lang w))) =
     fst (get_translation run text source_lang target_lang w)"
proof
  show "fst (get_translation run text source_lang target_lang w) =
     fst (get_translation run text source_lang target_lang w')"
    by (rule get_translation_result_state_free)
next
  show "fst (get_translation run text source_lang target_lang
            (snd (get_translation run text source_lang target_lang w))) =
     fst (get_translation run text source_lang target_lang w)"
    by (rule get_translation_result_state_free)
qed

text \<open>
  Claim C7. For the empty text \<open>get_translation\<close> checks nothing: it composes
  \<open>"Translate from {source_lang} to {target_lang}: "\<close> and makes exactly one remote
  call with it.
\<close>

theorem empty_text_is_sent:
  "runner_calls (snd (get_translation run [] source_lang target_lang w)) =
     runner_calls w @ [''Translate from '' @ source_lang @ '' to '' @ target_lang @ '': '']
   \<and> length (runner_calls (snd (get_translation run [] source_lang target_lang w))) =
     Suc (length (runner_calls w))"
  by (simp add: get_translation_calls)

text \<open>
  Claim C8. For the input \<open>"dog"\<close> from English to Spanish, when the remote service
  answers with a record whose \<open>translated_text\<close> is \<open>"perro"\<close>, the handler appends
  the user's entry and then the assistant's entry, whose content is the attribution
  prefix followed by \<open>"perro"\<close>.
\<close>

theorem perro_scenario:
  assumes "run ''Translate from English to Spanish: dog'' = Inr r"
      and "translated_text r = ''perro''"
  shows "chat_history (process_translation run True ''dog'' ''English'' ''Spanish'' w) =
           chat_history w
             @ [\<lparr>role = ''user'', content = ''dog''\<rparr>,
                \<lparr>role = ''assistant'',
                 content =
                   ''As Abdul Qadeer Trained Me The Translation Of This Line Will Be: perro''\<rparr>]"
proof -
  have "run (''Translate from '' @ ''English'' @ '' to '' @ ''Spanish'' @ '': '' @ ''dog'') = Inr r"
    using assms(1) by simp
  then have "fst (get_translation run ''dog'' ''English'' ''Spanish'' w) = r"
    by (simp only: get_translation_Inr fst_conv)
  then show ?thesis
    using assms(2) by (simp add: process_translation_history formatted_response_def)
qed

theorem perro_scenario_witness:
  "answering \<lparr>source_language = ''English'', target_language = ''Spanish'',
              translated_text = ''perro'', original_text = ''dog''\<rparr>
     ''Translate from English to Spanish: dog''
     = Inr \<lparr>source_language = ''English'', target_language = ''Spanish'',
            translated_text = ''perro'', original_text = ''dog''\<rparr>
   \<and> translated_text \<lparr>source_language = ''English'', target_language = ''Spanish'',
                      translated_text = ''perro'', original_text = ''dog''\<rparr> = ''perro''
   \<and> chat_history (process_translation
        (answering \<lparr>source_language = ''English'', target_language = ''Spanish'',
                    translated_text = ''perro'', original_text = ''dog''\<rparr>)
        True ''dog'' ''English'' ''Spanish'' fresh)
     = [\<lparr>role = ''user'', content = ''dog''\<rparr>,
        \<lparr>role = ''assistant'',
         content =
           ''As Abdul Qadeer Trained Me The Translation Of This Line Will Be: perro''\<rparr>]"
proof -
  have answered: "answering \<lparr>source_language = ''English'', target_language = ''Spanish'',
              translated_text = ''perro'', original_text = ''dog''\<rparr>
      ''Translate from English to Spanish: dog''
      = Inr \<lparr>source_language = ''English'', target_language = ''Spanish'',
            translated_text = ''perro'', original_text = ''dog''\<rparr>"
    by (simp add: answering_def)
  have perro: "translated_text \<lparr>source_language = ''English'', target_language = ''Spanish'',
                      translated_text = ''perro'', original_text = ''dog''\<rparr> = ''perro''"
    by simp
  from answered perro
    perro_scenario [of
      "answering \<lparr>source_language = ''English'', target_language = ''Spanish'',
                  translated_text = ''perro'', original_text = ''dog''\<rparr>"
      "\<lparr>source_language = ''English'', target_language = ''Spanish'',
        translated_text = ''perro'', original_text = ''dog''\<rparr>"
      fresh]
  show ?thesis
    by (simp add: fresh_def)
qed

text \<open>
  Claim C9. \<open>get_translation\<close> never looks at the list of 17 supported languages:
  for every pair of language names the same query is composed and the remote call is
  made, also for a pair of names that the list does not hold.
\<close>

theorem no_language_membership_check:
  "length languages = 17
   \<and> ''Klingon'' \<notin> set languages
   \<and> ''Elvish'' \<notin> set languages
   \<and> runner_calls (snd (get_translation run text ''Klingon'' ''Elvish'' w)) =
       runner_calls w @ [''Translate from Klingon to Elvish: '' @ text]
   \<and> runner_calls (snd (get_translation run text source_lang target_lang w)) =
       runner_calls w @ [''Translate from '' @ source_lang @ '' to '' @ target_lang @ '': '' @ text]"
  by (simp add: get_translation_calls languages_def)

text \<open>
  Claim C10. The assistant's entry that the handler appends is the attribution prefix
  followed by the \<open>translated_text\<close> of the result of \<open>get_translation\<close>, and nothing
  else of the result: two remote answers with the same \<open>translated_text\<close> leave the
  same chat history, whatever their other three fields are.
\<close>

theorem assistant_entry_from_translated_text:
  assumes "user_input \<noteq> []"
      and "translated_text r1 = translated_text r2"
  shows "chat_history (process_translation run True user_input source_lang target_lang w) =
           chat_history w
             @ [\<lparr>role = ''user'', content = user_input\<rparr>,
                \<lparr>role = ''assistant'',
                 content =
                   ''As Abdul Qadeer Trained Me The Translation Of This Line Will Be: ''
                     @ translated_text
                         (fst (get_translation run user_input source_lang target_lang w))\<rparr>]
       \<and> chat_history
           (process_translation (answering r1) True user_input source_lang target_lang w) =
         chat_history
           (process_translation (answering r2) True user_input source_lang target_lang w)"
proof
  show "chat_history (process_translation run True user_input source_lang target_lang w) =
           chat_history w
             @ [\<lparr>role = ''user'', content = user_input\<rparr>,
                \<lparr>role = ''assistant'',
                 content =
                   ''As Abdul Qadeer Trained Me The Translation Of This Line Will Be: ''
                     @ translated_text
                         (fst (get_translation run user_input source_lang target_lang w))\<rparr>]"
    using assms(1) by (simp add: process_translation_history formatted_response_def)
next
  have "fst (get_translation (answering r) user_input source_lang target_lang w) = r" for r
    by (simp add: get_translation_def answering_def Let_def)
  then show "chat_history
           (process_translation (answering r1) True user_input source_lang target_lang w) =
         chat_history
           (process_translation (answering r2) True user_input source_lang target_lang w)"
    using assms by (simp add: process_translation_history formatted_response_def)
qed

theorem assistant_entry_from_translated_text_witness:
  "''gato'' \<noteq> []
   \<and> translated_text \<lparr>source_language = ''Spanish'', target_language = ''English'',
                      translated_text = ''cat'', original_text = ''gato''\<rparr>
     = translated_text \<lparr>source_language = ''es'', target_language = ''en'',
                        translated_text = ''cat'', original_text = ''el gato''\<rparr>
   \<and> chat_history (process_translation (failing ''no key'') True ''gato'' ''Spanish'' ''English'' fresh)
     = [\<lparr>role = ''user'', content = ''gato''\<rparr>,
        \<lparr>role = ''assistant'',
         content = ''As Abdul Qadeer Trained Me The Translation Of This Line Will Be: ''
           @ ''Sorry, an error occurred during translation. Please try again.''\<rparr>]
   \<and> chat_history (process_translation
        (answering \<lparr>source_language = ''Spanish'', target_language = ''English'',
                    translated_text = ''cat'', original_text = ''gato''\<rparr>)
        True ''gato'' ''Spanish'' ''English'' fresh)
     = chat_history (process_translation
        (answering \<lparr>source_language = ''es'', target_language = ''en'',
                    translated_text = ''cat'', original_text = ''el gato''\<rparr>)
        True ''gato'' ''Spanish'' ''English'' fresh)"
proof -
  have nonempty: "''gato'' \<noteq> []"
    by simp
  have same: "translated_text \<lparr>source_language = ''Spanish'', target_language = ''English'',
                      translated_text = ''cat'', original_text = ''gato''\<rparr>
     = translated_text \<lparr>source_language = ''es'', target_language = ''en'',
                        translated_text = ''cat'', original_text = ''el gato''\<rparr>"
    by simp
  have fallback: "fst (get_translation (failing ''no key'') ''gato'' ''Spanish'' ''English'' fresh)
     = \<lparr>source_language = ''Spanish'', target_language = ''English'',
        translated_text = ''Sorry, an error occurred during translation. Please try again.'',
        original_text = ''gato''\<rparr>"
    by (simp add: get_translation_def failing_def Let_def)
  from assistant_entry_from_translated_text [OF nonempty same,
      of "failing ''no key''" "''Spanish''" "''English''" fresh]
    fallback
  show ?thesis
    by (simp add: fresh_def)
qed

end
